theory Spec2Isabelle
  imports Complex_Main "HOL-Library.Word" "HOL-Library.Signed_Division"
begin

section \<open>The Intel power HAL (power.cpp)\<close>

text \<open>
  The module keeps one process-wide state: the fields of \<open>struct intel_power_module\<close>, the
  file-level flags set by \<open>power_init\<close>, and the function-level statics of \<open>power_hint\<close>.
  Every function of the source becomes a function on that state. What the module does to the
  outside (attribute writes) is recorded in the field \<open>trace\<close>; what it reads from the outside
  (the monotonic clock, the results of system calls) is an argument of the function that reads it.

  C \<open>int\<close> fields are 32-bit words read as two's complement (\<open><s\<close> is the signed comparison),
  so the counter that \<open>power_hint\<close> increments wraps as it does on the hardware. Clock values
  (\<open>time_t\<close>, \<open>long\<close>, \<open>long long\<close> nanoseconds) are unbounded integers: the monotonic clock
  stays far from the range where 64-bit arithmetic overflows. The \<open>double\<close> that holds a time
  difference in milliseconds is the exact real number; the code only compares it with the
  whole numbers 20, 30 and 100, and clock values are whole nanoseconds, far coarser than the
  rounding of a \<open>double\<close> of that size.
\<close>

subsection \<open>Constants\<close>

definition TOUCHBOOST_PULSE_SYSFS :: string where
  "TOUCHBOOST_PULSE_SYSFS = ''/sys/devices/system/cpu/cpufreq/interactive/touchboostpulse''"

definition cpufreq_boost_intel_pstate :: string where
  "cpufreq_boost_intel_pstate = ''/sys/devices/system/cpu/intel_pstate/min_perf_pct''"

definition SCHEDTUNE_BOOST_PATH :: string where
  "SCHEDTUNE_BOOST_PATH = ''/dev/stune/foreground/schedtune.boost''"

definition SCHEDTUNE_BOOST_NORM :: string where
  "SCHEDTUNE_BOOST_NORM = ''10''"

definition SCHEDTUNE_BOOST_INTERACTIVE :: string where
  "SCHEDTUNE_BOOST_INTERACTIVE = ''40''"

definition SCHEDTUNE_BOOST_TIME_NS :: int where
  "SCHEDTUNE_BOOST_TIME_NS = 1000000000"

definition NSEC_PER_SEC :: int where
  "NSEC_PER_SEC = 1000000000"

definition SHORT_TOUCH_TIME :: real where
  "SHORT_TOUCH_TIME = 20"

definition LONG_TOUCH_TIME :: real where
  "LONG_TOUCH_TIME = 100"

definition VSYNC_BOOST_COUNT :: "32 word" where
  "VSYNC_BOOST_COUNT = 4"

definition VSYNC_TOUCH_TIME :: real where
  "VSYNC_TOUCH_TIME = 30"

subsection \<open>Attribute file access: \<open>sysfs_write\<close> and \<open>sysfs_read\<close>\<close>

text \<open>
  The two helpers make system calls and report with an \<open>int\<close>. The result of each system
  call is an argument (\<open>open_ret\<close> is what \<open>open\<close> returns, \<open>write_ret\<close> and \<open>read_ret\<close>
  what \<open>write\<close> and \<open>read\<close> return); the function returns its \<open>int\<close> and the list of calls
  it made, in order.
\<close>

datatype open_flag = O_RDONLY | O_WRONLY

datatype syscall =
    Sys_open string open_flag int
  | Sys_write int string int
  | Sys_read int int int
  | Sys_close int
  | ALOGE string

definition sysfs_write :: "int \<Rightarrow> int \<Rightarrow> string \<Rightarrow> string \<Rightarrow> int \<times> syscall list" where
  "sysfs_write open_ret write_ret path s =
     (let fd = open_ret in
      if fd < 0 then (- 1, [Sys_open path O_WRONLY fd, ALOGE ''Error opening''])
      else
        let len = write_ret in
        if len < 0 then
          (- 1, [Sys_open path O_WRONLY fd, Sys_write fd s len, ALOGE ''Error writing to'',
                 Sys_close fd])
        else (0, [Sys_open path O_WRONLY fd, Sys_write fd s len, Sys_close fd]))"

definition sysfs_read :: "int \<Rightarrow> int \<Rightarrow> string \<Rightarrow> int \<Rightarrow> int \<times> syscall list" where
  "sysfs_read open_ret read_ret path length' =
     (let fd = open_ret in
      if fd < 0 then (- 1, [Sys_open path O_RDONLY fd, ALOGE ''Error opening''])
      else
        let len = read_ret in
        if len < 0 then
          (- 1, [Sys_open path O_RDONLY fd, Sys_read fd length' len, ALOGE ''Error reading from'',
                 Sys_close fd])
        else (0, [Sys_open path O_RDONLY fd, Sys_read fd length' len, Sys_close fd]))"

subsection \<open>The state\<close>

record timespec =
  tv_sec :: int
  tv_nsec :: int

text \<open>Where the de-boost thread stands: not created, in \<open>sem_wait\<close>, about to take the lock at
  the head of the inner loop, or in \<open>nanosleep\<close> until the clock reaches the given value.\<close>

datatype thread_pc = Not_started | At_sem_wait | At_lock | In_nanosleep int

text \<open>What the module writes: a call \<open>sysfs_write path s\<close> made by \<open>power_hint\<close> (which
  discards its result), and a \<open>write\<close> of a boost level to the scheduler attribute by
  \<open>schedtune_sysfs_boost\<close> (whose result both callers discard), with the clock value \<open>now\<close>
  that the caller had read.\<close>

datatype io_event = Sysfs_write string string | Schedtune_write int string

record hal =
  interactiveActive :: bool
  intelPStateActive :: bool
  intelSchedBoostActive :: bool
  touchboost_disable :: "32 word"
  timer_set :: "32 word"
  vsync_boost :: "32 word"
  lock :: bool
  schedtune_boost_fd :: int
  deboost_time :: int
  signal_lock :: nat
  curr_time :: timespec
  prev_time :: timespec
  vsync_time :: timespec
  vsync_count :: "32 word"
  consecutive_touch_int :: "32 word"
  thread :: thread_pc
  trace :: "io_event list"

text \<open>The state at load time: \<open>HAL_MODULE_INFO_SYM\<close> and all statics are zero-initialised.\<close>

definition HAL_MODULE_INFO_SYM :: hal where
  "HAL_MODULE_INFO_SYM =
     \<lparr>interactiveActive = False, intelPStateActive = False, intelSchedBoostActive = False,
      touchboost_disable = 0, timer_set = 0, vsync_boost = 0, lock = False,
      schedtune_boost_fd = 0, deboost_time = 0, signal_lock = 0,
      curr_time = \<lparr>tv_sec = 0, tv_nsec = 0\<rparr>, prev_time = \<lparr>tv_sec = 0, tv_nsec = 0\<rparr>,
      vsync_time = \<lparr>tv_sec = 0, tv_nsec = 0\<rparr>, vsync_count = 0, consecutive_touch_int = 0,
      thread = Not_started, trace = []\<rparr>"

definition pthread_mutex_lock :: "hal \<Rightarrow> hal" where
  "pthread_mutex_lock s = s\<lparr>lock := True\<rparr>"

definition pthread_mutex_unlock :: "hal \<Rightarrow> hal" where
  "pthread_mutex_unlock s = s\<lparr>lock := False\<rparr>"

definition emit :: "io_event \<Rightarrow> hal \<Rightarrow> hal" where
  "emit e s = s\<lparr>trace := trace s @ [e]\<rparr>"

subsection \<open>The scheduler boost engine\<close>

definition gettime_ns :: "timespec \<Rightarrow> int" where
  "gettime_ns ts = tv_sec ts * NSEC_PER_SEC + tv_nsec ts"

text \<open>\<open>nanosleep_ns ns\<close> splits \<open>ns\<close> into seconds and nanoseconds with C's truncating
  division and sleeps that long; its value here is the length of the sleep it asks for.\<close>

definition nanosleep_ns :: "int \<Rightarrow> int" where
  "nanosleep_ns ns = (ns sdiv NSEC_PER_SEC) * NSEC_PER_SEC + ns smod NSEC_PER_SEC"

definition schedtune_sysfs_boost :: "int \<Rightarrow> string \<Rightarrow> hal \<Rightarrow> hal" where
  "schedtune_sysfs_boost now booststr s = emit (Schedtune_write now (take 2 booststr)) s"

definition schedtune_boost :: "timespec \<Rightarrow> hal \<Rightarrow> hal" where
  "schedtune_boost clk s =
     (let now = gettime_ns clk;
          s1 = (if deboost_time s = 0
                then (schedtune_sysfs_boost now SCHEDTUNE_BOOST_INTERACTIVE s)
                       \<lparr>signal_lock := signal_lock s + 1\<rparr>
                else s)
      in s1\<lparr>deboost_time := now + SCHEDTUNE_BOOST_TIME_NS\<rparr>)"

text \<open>
  One scheduling step of \<open>schedtune_deboost_thread\<close> when the clock reads \<open>now\<close>. In
  \<open>sem_wait\<close> the thread takes a unit of the semaphore if there is one. At the head of the
  inner loop it runs the section between \<open>pthread_mutex_lock\<close> and \<open>pthread_mutex_unlock\<close>
  in one piece (the mutex makes it atomic with respect to \<open>power_hint\<close>): either it goes to
  sleep for \<open>deboost_time - now\<close>, or it writes the normal level, clears \<open>deboost_time\<close> and
  returns to \<open>sem_wait\<close>. A sleeping thread resumes at the head of the inner loop once the
  clock has reached the end of its sleep. A thread that cannot move leaves the state as it is.
\<close>

definition schedtune_deboost_thread :: "int \<Rightarrow> hal \<Rightarrow> hal" where
  "schedtune_deboost_thread now s =
     (case thread s of
        Not_started \<Rightarrow> s
      | At_sem_wait \<Rightarrow>
          (if 0 < signal_lock s then s\<lparr>signal_lock := signal_lock s - 1, thread := At_lock\<rparr>
           else s)
      | At_lock \<Rightarrow>
          (let s1 = pthread_mutex_lock s in
           if deboost_time s1 > now then
             (let sleeptime = deboost_time s1 - now
              in (pthread_mutex_unlock s1)\<lparr>thread := In_nanosleep (now + nanosleep_ns sleeptime)\<rparr>)
           else
             (let s2 = schedtune_sysfs_boost now SCHEDTUNE_BOOST_NORM s1;
                  s3 = s2\<lparr>deboost_time := 0\<rparr>
              in (pthread_mutex_unlock s3)\<lparr>thread := At_sem_wait\<rparr>))
      | In_nanosleep wake \<Rightarrow> (if wake \<le> now then s\<lparr>thread := At_lock\<rparr> else s))"

definition thread_blocked :: "int \<Rightarrow> hal \<Rightarrow> bool" where
  "thread_blocked now s =
     (case thread s of
        Not_started \<Rightarrow> True
      | At_sem_wait \<Rightarrow> signal_lock s = 0
      | At_lock \<Rightarrow> False
      | In_nanosleep wake \<Rightarrow> now < wake)"

definition thread_rank :: "int \<Rightarrow> hal \<Rightarrow> nat" where
  "thread_rank now s =
     4 * signal_lock s +
     (case thread s of
        Not_started \<Rightarrow> 0
      | At_sem_wait \<Rightarrow> 1
      | At_lock \<Rightarrow> 2
      | In_nanosleep wake \<Rightarrow> (if wake \<le> now then 3 else 0))"

text \<open>The thread runs, with the clock at \<open>now\<close>, until it blocks in \<open>sem_wait\<close> or
  \<open>nanosleep\<close>.\<close>

function thread_run :: "int \<Rightarrow> hal \<Rightarrow> hal" where
  "thread_run now s =
     (if thread_blocked now s then s else thread_run now (schedtune_deboost_thread now s))"
  by pat_completeness auto
termination
  by (relation "measure (\<lambda>(now, s). thread_rank now s)")
     (auto simp: thread_blocked_def thread_rank_def schedtune_deboost_thread_def Let_def
                 pthread_mutex_lock_def pthread_mutex_unlock_def schedtune_sysfs_boost_def
                 emit_def nanosleep_ns_def sdiv_mult_smod_eq
           split: thread_pc.splits)

declare thread_run.simps [simp del]

text \<open>\<open>schedtune_power_init\<close>; \<open>open_ret\<close> is what \<open>open\<close> returns for the scheduler
  attribute. The result is the function's \<open>int\<close> and the new state.\<close>

definition schedtune_power_init :: "int \<Rightarrow> hal \<Rightarrow> int \<times> hal" where
  "schedtune_power_init open_ret s =
     (let s1 = s\<lparr>deboost_time := 0\<rparr>;
          s2 = s1\<lparr>signal_lock := 1\<rparr>;
          s3 = s2\<lparr>schedtune_boost_fd := open_ret\<rparr>
      in if schedtune_boost_fd s3 < 0 then (- 1, s3)
         else (0, s3\<lparr>thread := At_sem_wait\<rparr>))"

text \<open>\<open>power_init\<close>. The arguments are what \<open>open\<close> and \<open>read\<close> return inside the two
  \<open>sysfs_read\<close> probes (pulse attribute, then performance floor), and what \<open>open\<close> returns
  for the scheduler attribute. The calls to the power monitor and the cpuset controller, whose
  code is outside this file, are left out.\<close>

definition power_init :: "int \<Rightarrow> int \<Rightarrow> int \<Rightarrow> int \<Rightarrow> int \<Rightarrow> hal \<Rightarrow> hal" where
  "power_init pulse_open pulse_read pstate_open pstate_read sched_open s =
     (let s1 = (if fst (sysfs_read pulse_open pulse_read TOUCHBOOST_PULSE_SYSFS 1) = 0
                then s\<lparr>interactiveActive := True\<rparr> else s);
          s2 = (if fst (sysfs_read pstate_open pstate_read cpufreq_boost_intel_pstate 1) = 0
                then s1\<lparr>intelPStateActive := True\<rparr> else s1);
          (r, s3) = schedtune_power_init sched_open s2
      in if r = 0 then s3\<lparr>intelSchedBoostActive := True\<rparr> else s3)"

subsection \<open>The hint handler\<close>

datatype power_hint_t =
    POWER_HINT_VSYNC
  | POWER_HINT_INTERACTION
  | POWER_HINT_LOW_POWER
  | POWER_HINT_OTHER int

text \<open>The time from \<open>b\<close> to \<open>a\<close> in milliseconds, as both branches of \<open>power_hint\<close>
  compute it.\<close>

definition diff_ms :: "timespec \<Rightarrow> timespec \<Rightarrow> real" where
  "diff_ms a b = real_of_int ((tv_sec a - tv_sec b) * 1000) +
                 real_of_int (tv_nsec a - tv_nsec b) / 1000000"

text \<open>The case \<open>POWER_HINT_INTERACTION\<close> when \<open>interactiveActive\<close> holds; \<open>clk\<close> is
  what \<open>clock_gettime\<close> returns.\<close>

definition power_hint_interaction :: "timespec \<Rightarrow> hal \<Rightarrow> hal" where
  "power_hint_interaction clk s =
     (let s1 = s\<lparr>curr_time := clk\<rparr>;
          diff = diff_ms (curr_time s1) (prev_time s1);
          s2 = s1\<lparr>prev_time := curr_time s1\<rparr>;
          s3 = (if diff < SHORT_TOUCH_TIME then
                  s2\<lparr>consecutive_touch_int := consecutive_touch_int s2 + 1\<rparr>
                else if diff > LONG_TOUCH_TIME then
                  s2\<lparr>vsync_boost := 0, timer_set := 0, touchboost_disable := 0,
                     vsync_count := 0, consecutive_touch_int := 0\<rparr>
                else s2);
          s4 = (if diff < SHORT_TOUCH_TIME \<and> touchboost_disable s3 = 0
                   \<and> 4 <s consecutive_touch_int s3
                then s3\<lparr>touchboost_disable := 1\<rparr> else s3);
          s5 = (if touchboost_disable s4 = 1 \<and> 15 <s consecutive_touch_int s4
                   \<and> timer_set s4 = 0
                then s4\<lparr>timer_set := 1\<rparr> else s4)
      in if touchboost_disable s5 = 0
         then emit (Sysfs_write TOUCHBOOST_PULSE_SYSFS ''1'') s5 else s5)"

text \<open>The case \<open>POWER_HINT_VSYNC\<close> when \<open>interactiveActive\<close> holds; \<open>data\<close> is the payload
  pointer read as an unsigned number.\<close>

definition power_hint_vsync :: "timespec \<Rightarrow> nat \<Rightarrow> hal \<Rightarrow> hal" where
  "power_hint_vsync clk data s =
     (let s2 = (if touchboost_disable s = 1 then
                  (let s1 = s\<lparr>vsync_time := clk\<rparr>;
                       diff = diff_ms (vsync_time s1) (curr_time s1)
                   in if diff > VSYNC_TOUCH_TIME then
                        s1\<lparr>timer_set := 0, vsync_boost := 1, touchboost_disable := 0,
                           vsync_count := VSYNC_BOOST_COUNT\<rparr>
                      else s1)
                else s)
      in if vsync_boost s2 \<noteq> 0 then
           (if data \<noteq> 0 \<and> 0 <s vsync_count s2 then
              (let s3 = emit (Sysfs_write TOUCHBOOST_PULSE_SYSFS ''1'') s2;
                   s4 = s3\<lparr>vsync_count := vsync_count s3 - 1\<rparr>
               in if vsync_count s4 = 0 then s4\<lparr>vsync_boost := 0\<rparr> else s4)
            else s2)
         else s2)"

text \<open>\<open>power_hint\<close>. The case \<open>POWER_HINT_APP_LAUNCH\<close> exists only in builds that define
  both \<open>APP_LAUNCH_BOOST\<close> and \<open>APP_LAUNCH_BOOST_SUPPORTED\<close>; here it falls under
  \<open>default\<close>.\<close>

definition power_hint :: "power_hint_t \<Rightarrow> timespec \<Rightarrow> nat \<Rightarrow> hal \<Rightarrow> hal" where
  "power_hint hint clk data s0 =
     (let s = pthread_mutex_lock s0 in
      case hint of
        POWER_HINT_INTERACTION \<Rightarrow>
          pthread_mutex_unlock
            (if \<not> interactiveActive s then
               (if \<not> intelSchedBoostActive s then s else schedtune_boost clk s)
             else power_hint_interaction clk s)
      | POWER_HINT_VSYNC \<Rightarrow>
          (if \<not> interactiveActive s then pthread_mutex_unlock s
           else pthread_mutex_unlock (power_hint_vsync clk data s))
      | POWER_HINT_LOW_POWER \<Rightarrow> pthread_mutex_unlock s
      | POWER_HINT_OTHER k \<Rightarrow> pthread_mutex_unlock s)"

subsection \<open>Runs\<close>

text \<open>An event is a call of \<open>power_hint\<close> (with the clock value and payload it sees), one
  scheduling step of the de-boost thread, or a moment at which the thread is scheduled and runs
  until it blocks. Every event ends with the lock released, so runs are the interleavings of
  the two threads at the granularity the mutex allows.\<close>

datatype event = Hint power_hint_t timespec nat | Thread_step timespec | Tick timespec

fun step :: "event \<Rightarrow> hal \<Rightarrow> hal" where
  "step (Hint hint clk data) s = power_hint hint clk data s"
| "step (Thread_step clk) s = schedtune_deboost_thread (gettime_ns clk) s"
| "step (Tick clk) s = thread_run (gettime_ns clk) s"

fun run :: "event list \<Rightarrow> hal \<Rightarrow> hal" where
  "run [] s = s"
| "run (e # es) s = run es (step e s)"

inductive reachable :: "hal \<Rightarrow> bool" where
  init: "reachable (power_init pulse_open pulse_read pstate_open pstate_read sched_open
                      HAL_MODULE_INFO_SYM)"
| step: "reachable s \<Longrightarrow> reachable (step e s)"

subsection \<open>Vocabulary of the statements\<close>

text \<open>The clock value \<open>t\<close> milliseconds after the clock's zero.\<close>

definition at_ms :: "int \<Rightarrow> timespec" where
  "at_ms t = \<lparr>tv_sec = t div 1000, tv_nsec = (t mod 1000) * 1000000\<rparr>"

text \<open>How often the pulse attribute has been asserted so far.\<close>

definition pulse_writes :: "hal \<Rightarrow> nat" where
  "pulse_writes s = count_list (trace s) (Sysfs_write TOUCHBOOST_PULSE_SYSFS ''1'')"

text \<open>\<open>all_along P es s\<close>: \<open>P\<close> holds after each event of \<open>es\<close>, run from \<open>s\<close>.\<close>

fun all_along :: "(hal \<Rightarrow> bool) \<Rightarrow> event list \<Rightarrow> hal \<Rightarrow> bool" where
  "all_along P [] s = True"
| "all_along P (e # es) s = (P (step e s) \<and> all_along P es (step e s))"

text \<open>\<open>gaps P p cs\<close>: each clock value of \<open>cs\<close> lies a time satisfying \<open>P\<close> (in
  milliseconds) after the one before it, the first one after \<open>p\<close>. This is the gap that
  \<open>power_hint\<close> measures when interaction hints arrive at the clock values \<open>cs\<close> and the
  last recorded interaction was at \<open>p\<close>.\<close>

fun gaps :: "(real \<Rightarrow> bool) \<Rightarrow> timespec \<Rightarrow> timespec list \<Rightarrow> bool" where
  "gaps P p [] = True"
| "gaps P p (c # cs) = (P (diff_ms c p) \<and> gaps P c cs)"

text \<open>The module after \<open>power_init\<close> on a device where all three attributes are present
  (each \<open>open\<close> returns descriptor 3, each \<open>read\<close> one byte).\<close>

definition pulse_device :: hal where
  "pulse_device = power_init 3 1 3 1 3 HAL_MODULE_INFO_SYM"

text \<open>Three runs used as concrete inputs. \<open>scroll_burst\<close>: a touch after a long pause and
  five more, 10 ms apart, after which scroll mode is on. \<open>lift_and_touch_again\<close>: a vsync hint
  with null payload 40 ms after the last touch, a touch 10 ms later, and another 10 ms after
  that. \<open>four_vsyncs\<close>: four vsync hints with non-null payload, 16 ms apart.\<close>

definition scroll_burst :: "event list" where
  "scroll_burst =
     [Hint POWER_HINT_INTERACTION (at_ms 1000) 0,
      Hint POWER_HINT_INTERACTION (at_ms 1010) 0,
      Hint POWER_HINT_INTERACTION (at_ms 1020) 0,
      Hint POWER_HINT_INTERACTION (at_ms 1030) 0,
      Hint POWER_HINT_INTERACTION (at_ms 1040) 0,
      Hint POWER_HINT_INTERACTION (at_ms 1050) 0]"

definition lift_and_touch_again :: "event list" where
  "lift_and_touch_again =
     [Hint POWER_HINT_VSYNC (at_ms 1090) 0,
      Hint POWER_HINT_INTERACTION (at_ms 1100) 0,
      Hint POWER_HINT_INTERACTION (at_ms 1110) 0]"

definition four_vsyncs :: "event list" where
  "four_vsyncs =
     [Hint POWER_HINT_VSYNC (at_ms 1115) 1,
      Hint POWER_HINT_VSYNC (at_ms 1131) 1,
      Hint POWER_HINT_VSYNC (at_ms 1147) 1,
      Hint POWER_HINT_VSYNC (at_ms 1163) 1]"

text \<open>\<open>thread_event_before d e\<close>: \<open>e\<close> is an event of the de-boost thread, at a clock value
  before \<open>d\<close>.\<close>

fun thread_event_before :: "int \<Rightarrow> event \<Rightarrow> bool" where
  "thread_event_before d (Hint hint clk data) = False"
| "thread_event_before d (Thread_step clk) = (gettime_ns clk < d)"
| "thread_event_before d (Tick clk) = (gettime_ns clk < d)"

text \<open>\<open>armed d tr s\<close>: only the scheduler boost is available, a boost is pending with deadline
  \<open>d\<close>, the trace is \<open>tr\<close>, and the de-boost thread is on its way to that deadline: it has
  the signal waiting for it in \<open>sem_wait\<close>, or it has taken the signal and stands before the
  lock, or it sleeps until some moment not after \<open>d\<close>.\<close>

definition armed :: "int \<Rightarrow> io_event list \<Rightarrow> hal \<Rightarrow> bool" where
  "armed d tr s \<longleftrightarrow>
     \<not> interactiveActive s \<and> intelSchedBoostActive s \<and> deboost_time s = d \<and> trace s = tr \<and>
     (case thread s of
        Not_started \<Rightarrow> False
      | At_sem_wait \<Rightarrow> signal_lock s = 1
      | At_lock \<Rightarrow> signal_lock s = 0
      | In_nanosleep wake \<Rightarrow> wake \<le> d \<and> signal_lock s = 0)"

text \<open>The module after \<open>power_init\<close> on a device where only the scheduler attribute is
  present (the other two fail to open): the de-boost thread has been created and has not run
  yet.\<close>

definition sched_only_device :: hal where
  "sched_only_device = power_init (- 1) 0 (- 1) 0 3 HAL_MODULE_INFO_SYM"

text \<open>The same module once the de-boost thread has made its first pass, 5 ms after the clock's
  zero.\<close>

definition idle_engine :: hal where
  "idle_engine = step (Tick (at_ms 5)) sched_only_device"

section \<open>Properties\<close>

lemmas hint_defs = power_hint_def power_hint_interaction_def power_hint_vsync_def
  pthread_mutex_lock_def pthread_mutex_unlock_def emit_def Let_def
  SHORT_TOUCH_TIME_def LONG_TOUCH_TIME_def VSYNC_TOUCH_TIME_def VSYNC_BOOST_COUNT_def

lemmas thread_defs = schedtune_deboost_thread_def thread_blocked_def schedtune_sysfs_boost_def
  pthread_mutex_lock_def pthread_mutex_unlock_def emit_def Let_def nanosleep_ns_def sdiv_mult_smod_eq
  SCHEDTUNE_BOOST_NORM_def

lemmas init_defs = power_init_def schedtune_power_init_def sysfs_read_def HAL_MODULE_INFO_SYM_def

lemmas eval_defs = hint_defs init_defs diff_ms_def word_sless_alt

subsection \<open>The de-boost thread leaves the touch state alone\<close>

lemma thread_run_blocked: "thread_blocked now s \<Longrightarrow> thread_run now s = s"
  by (simp add: thread_run.simps)

lemma thread_run_unblocked:
  "\<not> thread_blocked now s \<Longrightarrow> thread_run now s = thread_run now (schedtune_deboost_thread now s)"
  by (subst thread_run.simps) simp

lemma thread_step_touch_state:
  "touchboost_disable (schedtune_deboost_thread now s) = touchboost_disable s \<and>
   timer_set (schedtune_deboost_thread now s) = timer_set s \<and>
   vsync_boost (schedtune_deboost_thread now s) = vsync_boost s \<and>
   vsync_count (schedtune_deboost_thread now s) = vsync_count s \<and>
   consecutive_touch_int (schedtune_deboost_thread now s) = consecutive_touch_int s \<and>
   curr_time (schedtune_deboost_thread now s) = curr_time s \<and>
   prev_time (schedtune_deboost_thread now s) = prev_time s \<and>
   interactiveActive (schedtune_deboost_thread now s) = interactiveActive s \<and>
   intelSchedBoostActive (schedtune_deboost_thread now s) = intelSchedBoostActive s \<and>
   pulse_writes (schedtune_deboost_thread now s) = pulse_writes s"
  by (simp add: thread_defs pulse_writes_def split: thread_pc.splits)

lemma thread_run_touch_state:
  "touchboost_disable (thread_run now s) = touchboost_disable s \<and>
   timer_set (thread_run now s) = timer_set s \<and>
   vsync_boost (thread_run now s) = vsync_boost s \<and>
   vsync_count (thread_run now s) = vsync_count s \<and>
   consecutive_touch_int (thread_run now s) = consecutive_touch_int s \<and>
   curr_time (thread_run now s) = curr_time s \<and>
   prev_time (thread_run now s) = prev_time s \<and>
   interactiveActive (thread_run now s) = interactiveActive s \<and>
   intelSchedBoostActive (thread_run now s) = intelSchedBoostActive s \<and>
   pulse_writes (thread_run now s) = pulse_writes s"
proof (induction now s rule: thread_run.induct)
  case (1 now s)
  show ?case
  proof (cases "thread_blocked now s")
    case True
    then show ?thesis by (simp add: thread_run_blocked)
  next
    case False
    with 1 show ?thesis by (simp add: thread_run_unblocked thread_step_touch_state)
  qed
qed

lemma scroll_step:
  assumes "touchboost_disable s = 1" "vsync_boost s = 0" "touchboost_disable (step e s) = 1"
  shows "vsync_boost (step e s) = 0 \<and> pulse_writes (step e s) = pulse_writes s"
proof (cases e)
  case (Hint h clk d)
  with assms show ?thesis
    by (cases h) (auto simp: hint_defs pulse_writes_def schedtune_boost_def schedtune_sysfs_boost_def split: if_splits)
next
  case (Thread_step clk)
  with assms show ?thesis by (simp add: thread_step_touch_state)
next
  case (Tick clk)
  with assms show ?thesis by (simp add: thread_run_touch_state)
qed

lemma scroll_run:
  "touchboost_disable s = 1 \<Longrightarrow> vsync_boost s = 0 \<Longrightarrow> all_along (\<lambda>x. touchboost_disable x = 1) es s
   \<Longrightarrow> pulse_writes (run es s) = pulse_writes s"
proof (induction es arbitrary: s)
  case Nil
  then show ?case by simp
next
  case (Cons e es)
  from Cons.prems have td: "touchboost_disable (step e s) = 1" by simp
  from scroll_step [OF Cons.prems(1,2) td] Cons.IH [of "step e s"] Cons.prems td
  show ?case by simp
qed

lemma interaction_fast:
  assumes "interactiveActive s" "diff_ms clk (prev_time s) < 20"
  shows "power_hint POWER_HINT_INTERACTION clk data s =
     (let c = consecutive_touch_int s + 1;
          td = (if touchboost_disable s = 0 \<and> 4 <s c then 1 else touchboost_disable s);
          ts = (if td = 1 \<and> 15 <s c \<and> timer_set s = 0 then 1 else timer_set s)
      in s\<lparr>curr_time := clk, prev_time := clk, consecutive_touch_int := c, touchboost_disable := td,
            timer_set := ts, lock := False,
            trace := trace s @ (if td = 0 then [Sysfs_write TOUCHBOOST_PULSE_SYSFS ''1''] else [])\<rparr>)"
  using assms by (simp add: hint_defs)

subsection \<open>Entering scroll mode\<close>

text \<open>
  Claim C2 as stated fails for a burst that follows a pause. From the state after
  \<open>power_init\<close>, five interaction hints 10 ms apart, the first one second after the clock's
  zero: the first hint is measured 1000 ms after the zero time stamp and resets the counter, the
  next four take it to 4, and the test \<open>consecutive_touch_int > 4\<close> fails. After the fifth
  hint scroll mode is off and all five hints have asserted the pulse attribute; it is the sixth
  hint that turns scroll mode on.
\<close>

theorem fifth_hint_after_pause_leaves_scroll_mode_off:
  "touchboost_disable
     (run [Hint POWER_HINT_INTERACTION (at_ms 1000) 0, Hint POWER_HINT_INTERACTION (at_ms 1010) 0,
           Hint POWER_HINT_INTERACTION (at_ms 1020) 0, Hint POWER_HINT_INTERACTION (at_ms 1030) 0,
           Hint POWER_HINT_INTERACTION (at_ms 1040) 0] pulse_device) = 0
   \<and> pulse_writes
     (run [Hint POWER_HINT_INTERACTION (at_ms 1000) 0, Hint POWER_HINT_INTERACTION (at_ms 1010) 0,
           Hint POWER_HINT_INTERACTION (at_ms 1020) 0, Hint POWER_HINT_INTERACTION (at_ms 1030) 0,
           Hint POWER_HINT_INTERACTION (at_ms 1040) 0] pulse_device) = 5
   \<and> touchboost_disable
     (run [Hint POWER_HINT_INTERACTION (at_ms 1000) 0, Hint POWER_HINT_INTERACTION (at_ms 1010) 0,
           Hint POWER_HINT_INTERACTION (at_ms 1020) 0, Hint POWER_HINT_INTERACTION (at_ms 1030) 0,
           Hint POWER_HINT_INTERACTION (at_ms 1040) 0, Hint POWER_HINT_INTERACTION (at_ms 1050) 0]
        pulse_device) = 1"
  by (simp add: eval_defs pulse_device_def at_ms_def pulse_writes_def)

text \<open>
  Claim C2, as the code has it. Take a state with the pulse attribute available and the touch
  state at its reset values (scroll mode off, the counter of fast interactions 0, no vsync
  boost), and five interaction hints, each of which \<open>power_hint\<close> measures at less than 20 ms
  after the interaction recorded before it: the first of the five after the time stamp held in
  the state, which is zero when the module is loaded and the time of the last interaction hint
  afterwards. Then scroll mode is off after each of the first four hints, each of which asserts
  the pulse attribute, and on after the fifth, which asserts nothing. From then on, over any
  events after which scroll mode is still on, the pulse attribute is not asserted again.
\<close>

theorem scroll_mode_on_fifth_fast_hint:
  fixes s :: hal and c1 c2 c3 c4 c5 :: timespec and d1 d2 d3 d4 d5 :: nat
  assumes "interactiveActive s"
      and "touchboost_disable s = 0" "consecutive_touch_int s = 0" "vsync_boost s = 0"
      and "gaps (\<lambda>d. d < 20) (prev_time s) [c1, c2, c3, c4, c5]"
  defines "s1 \<equiv> power_hint POWER_HINT_INTERACTION c1 d1 s"
  defines "s2 \<equiv> power_hint POWER_HINT_INTERACTION c2 d2 s1"
  defines "s3 \<equiv> power_hint POWER_HINT_INTERACTION c3 d3 s2"
  defines "s4 \<equiv> power_hint POWER_HINT_INTERACTION c4 d4 s3"
  defines "s5 \<equiv> power_hint POWER_HINT_INTERACTION c5 d5 s4"
  shows "touchboost_disable s1 = 0 \<and> touchboost_disable s2 = 0 \<and> touchboost_disable s3 = 0
       \<and> touchboost_disable s4 = 0 \<and> touchboost_disable s5 = 1
       \<and> trace s4 = trace s @ [Sysfs_write TOUCHBOOST_PULSE_SYSFS ''1'',
              Sysfs_write TOUCHBOOST_PULSE_SYSFS ''1'', Sysfs_write TOUCHBOOST_PULSE_SYSFS ''1'',
              Sysfs_write TOUCHBOOST_PULSE_SYSFS ''1'']
       \<and> trace s5 = trace s4
       \<and> (\<forall>es. all_along (\<lambda>x. touchboost_disable x = 1) es s5
              \<longrightarrow> pulse_writes (run es s5) = pulse_writes s5)"
proof -
  let ?P = "Sysfs_write TOUCHBOOST_PULSE_SYSFS ''1''"
  have e1: "s1 = s\<lparr>curr_time := c1, prev_time := c1, consecutive_touch_int := 1, lock := False,
                  trace := trace s @ [?P]\<rparr>"
    unfolding s1_def using assms(1-5) by (simp add: interaction_fast word_sless_alt)
  have e2: "s2 = s1\<lparr>curr_time := c2, prev_time := c2, consecutive_touch_int := 2, lock := False,
                  trace := trace s1 @ [?P]\<rparr>"
    unfolding s2_def using assms(1-5) by (simp add: e1 interaction_fast word_sless_alt)
  have e3: "s3 = s2\<lparr>curr_time := c3, prev_time := c3, consecutive_touch_int := 3, lock := False,
                  trace := trace s2 @ [?P]\<rparr>"
    unfolding s3_def using assms(1-5) by (simp add: e1 e2 interaction_fast word_sless_alt)
  have e4: "s4 = s3\<lparr>curr_time := c4, prev_time := c4, consecutive_touch_int := 4, lock := False,
                  trace := trace s3 @ [?P]\<rparr>"
    unfolding s4_def using assms(1-5) by (simp add: e1 e2 e3 interaction_fast word_sless_alt)
  have e5: "s5 = s4\<lparr>curr_time := c5, prev_time := c5, consecutive_touch_int := 5,
                  touchboost_disable := 1, lock := False\<rparr>"
    unfolding s5_def using assms(1-5) by (simp add: e1 e2 e3 e4 interaction_fast word_sless_alt)
  have td5: "touchboost_disable s5 = 1" and vb5: "vsync_boost s5 = 0"
    using assms(4) by (simp_all add: e1 e2 e3 e4 e5)
  have tail: "\<forall>es. all_along (\<lambda>x. touchboost_disable x = 1) es s5
              \<longrightarrow> pulse_writes (run es s5) = pulse_writes s5"
    using scroll_run [OF td5 vb5] by blast
  show ?thesis using assms(2) tail by (simp add: e1 e2 e3 e4 e5)
qed

theorem scroll_mode_on_fifth_fast_hint_witness:
  "interactiveActive (run [Hint POWER_HINT_INTERACTION (at_ms 1000) 0] pulse_device)
   \<and> gaps (\<lambda>d. d < 20) (at_ms 1000) [at_ms 1010, at_ms 1020, at_ms 1030, at_ms 1040, at_ms 1050]
   \<and> touchboost_disable (run [Hint POWER_HINT_INTERACTION (at_ms 1000) 0,
        Hint POWER_HINT_INTERACTION (at_ms 1010) 0, Hint POWER_HINT_INTERACTION (at_ms 1020) 0,
        Hint POWER_HINT_INTERACTION (at_ms 1030) 0, Hint POWER_HINT_INTERACTION (at_ms 1040) 0]
        pulse_device) = 0
   \<and> touchboost_disable (run [Hint POWER_HINT_INTERACTION (at_ms 1000) 0,
        Hint POWER_HINT_INTERACTION (at_ms 1010) 0, Hint POWER_HINT_INTERACTION (at_ms 1020) 0,
        Hint POWER_HINT_INTERACTION (at_ms 1030) 0, Hint POWER_HINT_INTERACTION (at_ms 1040) 0,
        Hint POWER_HINT_INTERACTION (at_ms 1050) 0]
        pulse_device) = 1"
proof -
  let ?s = "power_hint POWER_HINT_INTERACTION (at_ms 1000) 0 pulse_device"
  have h1: "interactiveActive ?s" by (simp add: eval_defs pulse_device_def at_ms_def)
  have h2: "touchboost_disable ?s = 0" by (simp add: eval_defs pulse_device_def at_ms_def)
  have h3: "consecutive_touch_int ?s = 0" by (simp add: eval_defs pulse_device_def at_ms_def)
  have h4: "vsync_boost ?s = 0" by (simp add: eval_defs pulse_device_def at_ms_def)
  have p: "prev_time ?s = at_ms 1000" by (simp add: eval_defs pulse_device_def at_ms_def)
  have g: "gaps (\<lambda>d. d < 20) (at_ms 1000) [at_ms 1010, at_ms 1020, at_ms 1030, at_ms 1040, at_ms 1050]"
    by (simp add: at_ms_def diff_ms_def)
  from g p have h5: "gaps (\<lambda>d. d < 20) (prev_time ?s) [at_ms 1010, at_ms 1020, at_ms 1030, at_ms 1040, at_ms 1050]"
    by simp
  from scroll_mode_on_fifth_fast_hint [OF h1 h2 h3 h4 h5, of 0 0 0 0 0] h1 g
  show ?thesis by simp
qed

subsection \<open>Interaction hints that are far apart\<close>

lemma interaction_slow:
  assumes "interactiveActive s" "20 \<le> diff_ms clk (prev_time s)"
    and "consecutive_touch_int s = 0" "touchboost_disable s = 0"
  shows "consecutive_touch_int (power_hint POWER_HINT_INTERACTION clk data s) = 0
       \<and> touchboost_disable (power_hint POWER_HINT_INTERACTION clk data s) = 0
       \<and> prev_time (power_hint POWER_HINT_INTERACTION clk data s) = clk
       \<and> interactiveActive (power_hint POWER_HINT_INTERACTION clk data s)"
  using assms by (simp add: hint_defs)

lemma interaction_inactive:
  assumes "\<not> interactiveActive s"
  shows "consecutive_touch_int (power_hint POWER_HINT_INTERACTION clk data s) = consecutive_touch_int s
       \<and> touchboost_disable (power_hint POWER_HINT_INTERACTION clk data s) = touchboost_disable s
       \<and> \<not> interactiveActive (power_hint POWER_HINT_INTERACTION clk data s)"
  using assms by (simp add: hint_defs schedtune_boost_def schedtune_sysfs_boost_def)

lemma slow_hints_active:
  "interactiveActive s \<Longrightarrow> consecutive_touch_int s = 0 \<Longrightarrow> touchboost_disable s = 0
   \<Longrightarrow> gaps (\<lambda>d. 21 \<le> d) (prev_time s) cs
   \<Longrightarrow> all_along (\<lambda>x. consecutive_touch_int x = 0 \<and> touchboost_disable x = 0)
         (map (\<lambda>c. Hint POWER_HINT_INTERACTION c data) cs) s"
proof (induction cs arbitrary: s)
  case Nil
  then show ?case by simp
next
  case (Cons c cs)
  from Cons.prems have far: "20 \<le> diff_ms c (prev_time s)" by simp
  note st = interaction_slow [OF Cons.prems(1) far Cons.prems(2,3), of data]
  from Cons.prems(4) st have "gaps (\<lambda>d. 21 \<le> d) (prev_time (power_hint POWER_HINT_INTERACTION c data s)) cs"
    by simp
  with st Cons.IH [of "power_hint POWER_HINT_INTERACTION c data s"] show ?case by simp
qed

lemma slow_hints_inactive:
  "\<not> interactiveActive s \<Longrightarrow> consecutive_touch_int s = 0 \<Longrightarrow> touchboost_disable s = 0
   \<Longrightarrow> all_along (\<lambda>x. consecutive_touch_int x = 0 \<and> touchboost_disable x = 0)
         (map (\<lambda>c. Hint POWER_HINT_INTERACTION c data) cs) s"
proof (induction cs arbitrary: s)
  case Nil
  then show ?case by simp
next
  case (Cons c cs)
  note st = interaction_inactive [OF Cons.prems(1), of c data]
  with Cons.prems Cons.IH [of "power_hint POWER_HINT_INTERACTION c data s"] show ?case by simp
qed

text \<open>
  Claim C6. Take a state with the counter of fast interactions at 0 and scroll mode off, and
  any sequence of interaction hints, each of which \<open>power_hint\<close> measures at 21 ms or more
  after the interaction recorded before it. The first hint is measured against the time stamp
  held in the state; when the module is loaded that is zero, so the gap of the first hint is
  the clock value it reads, the time since boot. Then after every hint of the sequence the
  counter is still 0 and scroll mode is still off.
\<close>

theorem slow_hints_never_count:
  assumes "consecutive_touch_int s = 0" "touchboost_disable s = 0"
      and "gaps (\<lambda>d. 21 \<le> d) (prev_time s) cs"
  shows "all_along (\<lambda>x. consecutive_touch_int x = 0 \<and> touchboost_disable x = 0)
           (map (\<lambda>c. Hint POWER_HINT_INTERACTION c data) cs) s"
  using assms slow_hints_active slow_hints_inactive by (cases "interactiveActive s") blast+

theorem slow_hints_never_count_witness:
  "gaps (\<lambda>d. 21 \<le> d) (prev_time pulse_device) [at_ms 1000, at_ms 1021, at_ms 1100, at_ms 1300]
   \<and> all_along (\<lambda>x. consecutive_touch_int x = 0 \<and> touchboost_disable x = 0)
           (map (\<lambda>c. Hint POWER_HINT_INTERACTION c 0) [at_ms 1000, at_ms 1021, at_ms 1100, at_ms 1300])
           pulse_device"
proof -
  let ?s = "pulse_device"
  have h1: "consecutive_touch_int ?s = 0" by (simp add: init_defs pulse_device_def)
  have h2: "touchboost_disable ?s = 0" by (simp add: init_defs pulse_device_def)
  have h3: "gaps (\<lambda>d. 21 \<le> d) (prev_time ?s) [at_ms 1000, at_ms 1021, at_ms 1100, at_ms 1300]"
    by (simp add: init_defs pulse_device_def at_ms_def diff_ms_def)
  from slow_hints_never_count [OF h1 h2 h3, of 0] h3 show ?thesis by simp
qed

subsection \<open>Invariants of the touch state\<close>

lemma sless_pred:
  fixes c :: "32 word"
  assumes "0 <s c"
  shows "0 \<le> sint (c - 1)"
proof -
  have pos: "0 < sint c" using assms by (simp add: word_sless_alt)
  have lt: "sint c < 2 ^ 31" using sint_lt [of c] by simp
  have "sint (c - 1) = signed_take_bit 31 (sint c - 1)" by (simp add: sint_word_ariths)
  also have "\<dots> = sint c - 1" using pos lt by (simp add: signed_take_bit_int_eq_self)
  finally show ?thesis using pos by simp
qed

lemma power_init_touch_state:
  "touchboost_disable (power_init a b c d e s) = touchboost_disable s \<and>
   vsync_boost (power_init a b c d e s) = vsync_boost s \<and>
   vsync_count (power_init a b c d e s) = vsync_count s \<and>
   consecutive_touch_int (power_init a b c d e s) = consecutive_touch_int s"
  by (simp add: power_init_def schedtune_power_init_def Let_def)

lemma reachable_run: "reachable s \<Longrightarrow> reachable (run es s)"
  by (induction es arbitrary: s) (auto intro: reachable.step)

lemma vsync_count_step:
  assumes "0 \<le>s vsync_count s"
  shows "0 \<le>s vsync_count (step e s)"
proof (cases e)
  case (Hint h clk d)
  with assms show ?thesis
    by (cases h) (auto simp: hint_defs schedtune_boost_def schedtune_sysfs_boost_def sless_pred
                             word_sle_eq)
next
  case (Thread_step clk)
  with assms show ?thesis by (simp add: thread_step_touch_state)
next
  case (Tick clk)
  with assms show ?thesis by (simp add: thread_run_touch_state)
qed

lemma pulses_imply_boost_step:
  assumes "0 <s vsync_count s \<longrightarrow> vsync_boost s = 1"
  shows "0 <s vsync_count (step e s) \<longrightarrow> vsync_boost (step e s) = 1"
proof (cases e)
  case (Hint h clk d)
  with assms show ?thesis
    by (cases h) (auto simp: hint_defs schedtune_boost_def schedtune_sysfs_boost_def)
next
  case (Thread_step clk)
  with assms show ?thesis by (simp add: thread_step_touch_state)
next
  case (Tick clk)
  with assms show ?thesis by (simp add: thread_run_touch_state)
qed

lemma boost_entered_without_scroll:
  assumes "vsync_boost s = 0" "vsync_boost (step e s) \<noteq> 0"
  shows "touchboost_disable (step e s) = 0"
proof (cases e)
  case (Hint h clk d)
  with assms show ?thesis
    by (cases h) (auto simp: hint_defs schedtune_boost_def schedtune_sysfs_boost_def split: if_splits)
next
  case (Thread_step clk)
  with assms show ?thesis by (simp add: thread_step_touch_state)
next
  case (Tick clk)
  with assms show ?thesis by (simp add: thread_run_touch_state)
qed

text \<open>
  Claim C9. In every state reachable from the loaded module by \<open>power_init\<close> and any events
  (hints of every kind, with any clock values and payloads, and runs of the de-boost thread),
  \<open>vsync_count\<close> is not negative. The step lemma \<open>vsync_count_step\<close> holds from any state:
  the only decrement sits under the test \<open>vsync_count > 0\<close>.
\<close>

theorem vsync_count_never_negative: "reachable s \<Longrightarrow> 0 \<le>s vsync_count s"
proof (induction rule: reachable.induct)
  case (init pulse_open pulse_read pstate_open pstate_read sched_open)
  show ?case by (simp add: power_init_touch_state HAL_MODULE_INFO_SYM_def)
next
  case (step s e)
  then show ?case by (simp add: vsync_count_step)
qed

theorem vsync_count_never_negative_witness:
  "reachable (run (scroll_burst @ lift_and_touch_again @ four_vsyncs)
                pulse_device)
   \<and> 0 \<le>s vsync_count (run (scroll_burst @ lift_and_touch_again @ four_vsyncs)
                         pulse_device)"
proof -
  have r: "reachable (run (scroll_burst @ lift_and_touch_again @ four_vsyncs)
                       pulse_device)"
    by (rule reachable_run) (simp add: pulse_device_def reachable.init)
  from vsync_count_never_negative [OF r] r show ?thesis by simp
qed

text \<open>
  Claim C3 as stated fails. After a scroll has been recognised and the finger has lifted
  (\<open>vsync_boost = 1\<close>, four pulses pending), two touches 10 ms apart within 100 ms of the last
  one set \<open>touchboost_disable\<close> again, since the counter of fast interactions was never
  reset, and \<open>vsync_boost\<close> is still 1: scroll mode and vsync boost hold together.
\<close>

theorem scroll_mode_with_vsync_boost_reachable:
  "reachable (run (scroll_burst @ lift_and_touch_again) pulse_device)
   \<and> touchboost_disable
        (run (scroll_burst @ lift_and_touch_again) pulse_device) = 1
   \<and> vsync_boost
        (run (scroll_burst @ lift_and_touch_again) pulse_device) = 1"
proof -
  have "reachable (run (scroll_burst @ lift_and_touch_again)
                    pulse_device)"
    by (rule reachable_run) (simp add: pulse_device_def reachable.init)
  moreover have "touchboost_disable
      (run (scroll_burst @ lift_and_touch_again) pulse_device) = 1"
    by (simp add: scroll_burst_def lift_and_touch_again_def at_ms_def eval_defs pulse_device_def)
  moreover have "vsync_boost
      (run (scroll_burst @ lift_and_touch_again) pulse_device) = 1"
    by (simp add: scroll_burst_def lift_and_touch_again_def at_ms_def eval_defs pulse_device_def)
  ultimately show ?thesis by simp
qed

text \<open>
  Claim C3, as the code has it. In every reachable state, \<open>vsync_count > 0\<close> implies
  \<open>vsync_boost = 1\<close>. Scroll mode and vsync boost exclude each other only at the moment vsync
  boost is entered: any event that takes \<open>vsync_boost\<close> from 0 to a non-zero value leaves
  \<open>touchboost_disable = 0\<close>. Interaction hints may set \<open>touchboost_disable\<close> afterwards
  while \<open>vsync_boost\<close> is still set.
\<close>

theorem pending_pulses_imply_vsync_boost:
  "reachable s \<Longrightarrow>
     (0 <s vsync_count s \<longrightarrow> vsync_boost s = 1) \<and>
     (\<forall>e. vsync_boost s = 0 \<and> vsync_boost (step e s) \<noteq> 0
           \<longrightarrow> touchboost_disable (step e s) = 0)"
proof (induction rule: reachable.induct)
  case (init pulse_open pulse_read pstate_open pstate_read sched_open)
  show ?case using boost_entered_without_scroll
    by (auto simp: power_init_touch_state HAL_MODULE_INFO_SYM_def)
next
  case (step s e)
  then show ?case using pulses_imply_boost_step boost_entered_without_scroll by blast
qed

theorem pending_pulses_imply_vsync_boost_witness:
  "reachable (run (scroll_burst @ [Hint POWER_HINT_VSYNC (at_ms 1090) 0])
                pulse_device)
   \<and> 0 <s vsync_count (run (scroll_burst @ [Hint POWER_HINT_VSYNC (at_ms 1090) 0])
                         pulse_device)
   \<and> vsync_boost (run (scroll_burst @ [Hint POWER_HINT_VSYNC (at_ms 1090) 0])
                    pulse_device) = 1"
proof -
  have r: "reachable (run (scroll_burst @ [Hint POWER_HINT_VSYNC (at_ms 1090) 0])
                       pulse_device)"
    by (rule reachable_run) (simp add: pulse_device_def reachable.init)
  have p: "0 <s vsync_count (run (scroll_burst @ [Hint POWER_HINT_VSYNC (at_ms 1090) 0])
                              pulse_device)"
    by (simp add: scroll_burst_def at_ms_def eval_defs pulse_device_def)
  from pending_pulses_imply_vsync_boost [OF r] r p show ?thesis by simp
qed

subsection \<open>From scroll mode to vsync boost\<close>

text \<open>
  Claim C5 as stated fails when the payload is not null: the same hint that enters vsync boost
  goes on to assert the pulse attribute and to decrement the counter it has just set, so it
  returns with \<open>vsync_count = 3\<close>.
\<close>

theorem finger_lift_with_payload_leaves_three:
  "interactiveActive (run scroll_burst pulse_device)
   \<and> touchboost_disable (run scroll_burst pulse_device) = 1
   \<and> diff_ms (at_ms 1090)
        (curr_time (run scroll_burst pulse_device)) > 30
   \<and> vsync_count (power_hint POWER_HINT_VSYNC (at_ms 1090) 1
        (run scroll_burst pulse_device)) = 3"
  by (simp add: scroll_burst_def at_ms_def eval_defs pulse_device_def)

text \<open>
  Claim C5, as the code has it. In scroll mode, with the pulse attribute available, a vsync
  hint that arrives more than 30 ms after the last recorded interaction leaves scroll mode and
  enters vsync boost: \<open>vsync_boost = 1\<close>, \<open>timer_set = 0\<close>, \<open>touchboost_disable = 0\<close>. With a
  null payload it returns with \<open>vsync_count = 4\<close> and writes nothing; with a non-null payload
  it asserts the pulse attribute once and returns with \<open>vsync_count = 3\<close>. Nothing else
  changes but \<open>vsync_time\<close>.
\<close>

theorem finger_lift_enters_vsync_boost:
  assumes "interactiveActive s" "touchboost_disable s = 1" "diff_ms clk (curr_time s) > 30"
  shows "power_hint POWER_HINT_VSYNC clk data s =
     (if data = 0 then
        s\<lparr>vsync_time := clk, timer_set := 0, vsync_boost := 1, touchboost_disable := 0,
          vsync_count := 4, lock := False\<rparr>
      else
        s\<lparr>vsync_time := clk, timer_set := 0, vsync_boost := 1, touchboost_disable := 0,
          vsync_count := 3, lock := False,
          trace := trace s @ [Sysfs_write TOUCHBOOST_PULSE_SYSFS ''1'']\<rparr>)"
  using assms by (simp add: hint_defs word_sless_alt)

theorem finger_lift_enters_vsync_boost_witness:
  "interactiveActive (run scroll_burst pulse_device)
   \<and> touchboost_disable (run scroll_burst pulse_device) = 1
   \<and> diff_ms (at_ms 1090)
        (curr_time (run scroll_burst pulse_device)) > 30
   \<and> vsync_count (power_hint POWER_HINT_VSYNC (at_ms 1090) 0
        (run scroll_burst pulse_device)) = 4
   \<and> vsync_boost (power_hint POWER_HINT_VSYNC (at_ms 1090) 0
        (run scroll_burst pulse_device)) = 1"
proof -
  let ?s = "run scroll_burst pulse_device"
  have h1: "interactiveActive ?s" by (simp add: scroll_burst_def at_ms_def eval_defs pulse_device_def)
  have h2: "touchboost_disable ?s = 1" by (simp add: scroll_burst_def at_ms_def eval_defs pulse_device_def)
  have h3: "diff_ms (at_ms 1090) (curr_time ?s) > 30" by (simp add: scroll_burst_def at_ms_def eval_defs pulse_device_def)
  from finger_lift_enters_vsync_boost [OF h1 h2 h3, of 0] h1 h2 h3 show ?thesis by simp
qed

subsection \<open>The four pulses of vsync boost\<close>

lemma vsync_pulse:
  assumes "interactiveActive s" "touchboost_disable s \<noteq> 1" "vsync_boost s \<noteq> 0"
    and "0 <s vsync_count s" "data \<noteq> 0"
  shows "power_hint POWER_HINT_VSYNC clk data s =
     (if vsync_count s = 1 then
        s\<lparr>vsync_count := 0, vsync_boost := 0, lock := False,
          trace := trace s @ [Sysfs_write TOUCHBOOST_PULSE_SYSFS ''1'']\<rparr>
      else
        s\<lparr>vsync_count := vsync_count s - 1, lock := False,
          trace := trace s @ [Sysfs_write TOUCHBOOST_PULSE_SYSFS ''1'']\<rparr>)"
  using assms by (auto simp add: hint_defs)

lemma vsync_idle:
  assumes "interactiveActive s" "touchboost_disable s \<noteq> 1" "vsync_boost s = 0"
  shows "power_hint POWER_HINT_VSYNC clk data s = s\<lparr>lock := False\<rparr>"
  using assms by (auto simp add: hint_defs)

text \<open>
  Claim C4 as stated fails in a state where scroll mode is set together with vsync boost,
  reached by touching again after the finger has lifted. There \<open>vsync_boost = 1\<close> and
  \<open>vsync_count = 4\<close>; the third of four vsync hints with non-null payload arrives more than
  30 ms after the last touch and sets the counter back to 4. After the four hints the counter
  is 2, vsync boost is still on, and a fifth hint asserts the pulse attribute again.
\<close>

theorem vsync_boost_rearmed_in_scroll_mode:
  "vsync_boost (run (scroll_burst @ lift_and_touch_again)
                  pulse_device) = 1
   \<and> vsync_count (run (scroll_burst @ lift_and_touch_again)
                    pulse_device) = 4
   \<and> vsync_count (run four_vsyncs
        (run (scroll_burst @ lift_and_touch_again) pulse_device)) = 2
   \<and> vsync_boost (run four_vsyncs
        (run (scroll_burst @ lift_and_touch_again) pulse_device)) = 1
   \<and> pulse_writes (run (four_vsyncs @ [Hint POWER_HINT_VSYNC (at_ms 1179) 1])
        (run (scroll_burst @ lift_and_touch_again) pulse_device))
     = pulse_writes (run four_vsyncs
        (run (scroll_burst @ lift_and_touch_again) pulse_device)) + 1"
  by (simp add: scroll_burst_def lift_and_touch_again_def four_vsyncs_def at_ms_def eval_defs pulse_device_def pulse_writes_def)

text \<open>
  Claim C4, as the code has it. With the pulse attribute available, vsync boost on,
  \<open>vsync_count = 4\<close> and scroll mode off, each of four vsync hints with non-null payload
  appends one assertion of the pulse attribute and takes the counter down by one (3, 2, 1, 0);
  \<open>vsync_boost\<close> keeps its value through the first three and is cleared by the fourth; a fifth
  such hint returns the state it was given.
\<close>

theorem four_vsync_pulses:
  fixes s :: hal and c1 c2 c3 c4 c5 :: timespec and d1 d2 d3 d4 d5 :: nat
  assumes "interactiveActive s" "vsync_boost s \<noteq> 0" "vsync_count s = 4"
      and "touchboost_disable s = 0"
      and "d1 \<noteq> 0" "d2 \<noteq> 0" "d3 \<noteq> 0" "d4 \<noteq> 0" "d5 \<noteq> 0"
  defines "s1 \<equiv> power_hint POWER_HINT_VSYNC c1 d1 s"
  defines "s2 \<equiv> power_hint POWER_HINT_VSYNC c2 d2 s1"
  defines "s3 \<equiv> power_hint POWER_HINT_VSYNC c3 d3 s2"
  defines "s4 \<equiv> power_hint POWER_HINT_VSYNC c4 d4 s3"
  defines "s5 \<equiv> power_hint POWER_HINT_VSYNC c5 d5 s4"
  shows "vsync_count s1 = 3 \<and> vsync_count s2 = 2 \<and> vsync_count s3 = 1 \<and> vsync_count s4 = 0
       \<and> vsync_boost s1 = vsync_boost s \<and> vsync_boost s2 = vsync_boost s
       \<and> vsync_boost s3 = vsync_boost s \<and> vsync_boost s4 = 0
       \<and> trace s1 = trace s @ [Sysfs_write TOUCHBOOST_PULSE_SYSFS ''1'']
       \<and> trace s2 = trace s1 @ [Sysfs_write TOUCHBOOST_PULSE_SYSFS ''1'']
       \<and> trace s3 = trace s2 @ [Sysfs_write TOUCHBOOST_PULSE_SYSFS ''1'']
       \<and> trace s4 = trace s3 @ [Sysfs_write TOUCHBOOST_PULSE_SYSFS ''1'']
       \<and> s5 = s4"
proof -
  let ?P = "Sysfs_write TOUCHBOOST_PULSE_SYSFS ''1''"
  have e1: "s1 = s\<lparr>vsync_count := 3, lock := False, trace := trace s @ [?P]\<rparr>"
    unfolding s1_def using assms(1-5) by (simp add: vsync_pulse word_sless_alt)
  have e2: "s2 = s1\<lparr>vsync_count := 2, lock := False, trace := trace s1 @ [?P]\<rparr>"
    unfolding s2_def using assms(1-4,6) by (simp add: e1 vsync_pulse word_sless_alt)
  have e3: "s3 = s2\<lparr>vsync_count := 1, lock := False, trace := trace s2 @ [?P]\<rparr>"
    unfolding s3_def using assms(1-4,7) by (simp add: e1 e2 vsync_pulse word_sless_alt)
  have e4: "s4 = s3\<lparr>vsync_count := 0, vsync_boost := 0, lock := False,
                    trace := trace s3 @ [?P]\<rparr>"
    unfolding s4_def using assms(1-4,8) by (simp add: e1 e2 e3 vsync_pulse word_sless_alt)
  have e5: "s5 = s4"
    unfolding s5_def using assms(1-4) by (simp add: e1 e2 e3 e4 vsync_idle)
  show ?thesis by (simp add: e1 e2 e3 e4 e5)
qed

theorem four_vsync_pulses_witness:
  "interactiveActive (run (scroll_burst @ [Hint POWER_HINT_VSYNC (at_ms 1090) 0])
                        pulse_device)
   \<and> vsync_boost (run (scroll_burst @ [Hint POWER_HINT_VSYNC (at_ms 1090) 0])
                    pulse_device) \<noteq> 0
   \<and> vsync_count (run (scroll_burst @ [Hint POWER_HINT_VSYNC (at_ms 1090) 0])
                    pulse_device) = 4
   \<and> touchboost_disable (run (scroll_burst @ [Hint POWER_HINT_VSYNC (at_ms 1090) 0])
                           pulse_device) = 0
   \<and> vsync_count (run four_vsyncs
        (run (scroll_burst @ [Hint POWER_HINT_VSYNC (at_ms 1090) 0])
           pulse_device)) = 0
   \<and> vsync_boost (run four_vsyncs
        (run (scroll_burst @ [Hint POWER_HINT_VSYNC (at_ms 1090) 0])
           pulse_device)) = 0"
proof -
  let ?s = "run (scroll_burst @ [Hint POWER_HINT_VSYNC (at_ms 1090) 0])
              pulse_device"
  have h1: "interactiveActive ?s" by (simp add: scroll_burst_def at_ms_def eval_defs pulse_device_def)
  have h2: "vsync_boost ?s \<noteq> 0" by (simp add: scroll_burst_def at_ms_def eval_defs pulse_device_def)
  have h3: "vsync_count ?s = 4" by (simp add: scroll_burst_def at_ms_def eval_defs pulse_device_def)
  have h4: "touchboost_disable ?s = 0" by (simp add: scroll_burst_def at_ms_def eval_defs pulse_device_def)
  have d: "(1::nat) \<noteq> 0" by simp
  from four_vsync_pulses [OF h1 h2 h3 h4 d d d d d,
      of "at_ms 1115" "at_ms 1131" "at_ms 1147" "at_ms 1163" "at_ms 1179"] h1 h2 h3 h4
  show ?thesis by (simp add: four_vsyncs_def)
qed

subsection \<open>Attribute file access\<close>

text \<open>
  Claim C7 as stated fails for a short transfer: \<open>write\<close> returning 0 of the 1 byte asked
  for is reported as success (0), since only a negative return is tested.
\<close>

theorem short_write_reported_as_success:
  "sysfs_write 3 0 TOUCHBOOST_PULSE_SYSFS ''1'' =
     (0, [Sys_open TOUCHBOOST_PULSE_SYSFS O_WRONLY 3, Sys_write 3 ''1'' 0, Sys_close 3])"
  by (simp add: sysfs_write_def)

text \<open>
  Claim C7, as the code has it. \<open>sysfs_write\<close> and \<open>sysfs_read\<close> always return: -1 when
  \<open>open\<close> fails or when \<open>write\<close>/\<open>read\<close> returns a negative value, 0 otherwise (also when
  fewer bytes were transferred than asked for). When \<open>open\<close> succeeded, the descriptor is
  closed exactly once and \<open>close\<close> is the last call made, on the error path as on the
  success path; when \<open>open\<close> failed the function only logs.
\<close>

theorem sysfs_error_reporting:
  "fst (sysfs_write open_ret write_ret path v) = (if open_ret < 0 \<or> write_ret < 0 then - 1 else 0)
   \<and> fst (sysfs_read open_ret read_ret path n) = (if open_ret < 0 \<or> read_ret < 0 then - 1 else 0)
   \<and> (0 \<le> open_ret \<longrightarrow>
        last (snd (sysfs_write open_ret write_ret path v)) = Sys_close open_ret
      \<and> last (snd (sysfs_read open_ret read_ret path n)) = Sys_close open_ret
      \<and> count_list (snd (sysfs_write open_ret write_ret path v)) (Sys_close open_ret) = 1
      \<and> count_list (snd (sysfs_read open_ret read_ret path n)) (Sys_close open_ret) = 1)
   \<and> (open_ret < 0 \<longrightarrow>
        snd (sysfs_write open_ret write_ret path v)
          = [Sys_open path O_WRONLY open_ret, ALOGE ''Error opening'']
      \<and> snd (sysfs_read open_ret read_ret path n)
          = [Sys_open path O_RDONLY open_ret, ALOGE ''Error opening''])"
  by (simp add: sysfs_write_def sysfs_read_def Let_def)

theorem sysfs_error_reporting_witness:
  "(0::int) \<le> 3
   \<and> fst (sysfs_write 3 (- 1) TOUCHBOOST_PULSE_SYSFS ''1'') = - 1
   \<and> last (snd (sysfs_write 3 (- 1) TOUCHBOOST_PULSE_SYSFS ''1'')) = Sys_close 3
   \<and> fst (sysfs_read 3 1 TOUCHBOOST_PULSE_SYSFS 1) = 0
   \<and> last (snd (sysfs_read 3 1 TOUCHBOOST_PULSE_SYSFS 1)) = Sys_close 3"
  using sysfs_error_reporting [of 3 "- 1" TOUCHBOOST_PULSE_SYSFS "''1''" 1 1]
        sysfs_error_reporting [of 3 1 TOUCHBOOST_PULSE_SYSFS "''1''" 1 1]
  by simp

subsection \<open>Vsync hints without the pulse attribute\<close>

text \<open>
  Claim C8. When \<open>interactiveActive\<close> is false, a vsync hint returns the state it was given:
  no field of the touch state changes, nothing is appended to the trace of attribute writes,
  and the lock is not held on return.
\<close>

theorem vsync_hint_ignored_without_pulse_boost:
  "\<not> interactiveActive s \<Longrightarrow> power_hint POWER_HINT_VSYNC clk data s = s\<lparr>lock := False\<rparr>"
  by (simp add: hint_defs)

theorem vsync_hint_ignored_without_pulse_boost_witness:
  "\<not> interactiveActive HAL_MODULE_INFO_SYM \<and>
   power_hint POWER_HINT_VSYNC (at_ms 1000) 1 HAL_MODULE_INFO_SYM =
     HAL_MODULE_INFO_SYM\<lparr>lock := False\<rparr>"
  using vsync_hint_ignored_without_pulse_boost [of HAL_MODULE_INFO_SYM "at_ms 1000" 1]
  by (simp add: HAL_MODULE_INFO_SYM_def)

subsection \<open>The scheduler boost engine\<close>

lemma run_append: "run (xs @ ys) s = run ys (run xs s)"
  by (induction xs arbitrary: s) auto

lemma thread_run_sleeps:
  assumes "thread s = At_lock" "now < deboost_time s"
  shows "thread_run now s = s\<lparr>lock := False, thread := In_nanosleep (deboost_time s)\<rparr>"
proof -
  have "\<not> thread_blocked now s" using assms by (simp add: thread_blocked_def)
  then have "thread_run now s = thread_run now (schedtune_deboost_thread now s)"
    by (rule thread_run_unblocked)
  also have "schedtune_deboost_thread now s = s\<lparr>lock := False, thread := In_nanosleep (deboost_time s)\<rparr>"
    using assms by (simp add: thread_defs)
  also have "thread_run now \<dots> = s\<lparr>lock := False, thread := In_nanosleep (deboost_time s)\<rparr>"
    using assms by (simp add: thread_run_blocked thread_blocked_def)
  finally show ?thesis .
qed

lemma thread_run_deboosts:
  assumes "thread s = At_lock" "deboost_time s \<le> now" "signal_lock s = 0"
  shows "thread_run now s =
           s\<lparr>lock := False, trace := trace s @ [Schedtune_write now ''10''], deboost_time := 0,
             thread := At_sem_wait\<rparr>"
proof -
  have "\<not> thread_blocked now s" using assms by (simp add: thread_blocked_def)
  then have "thread_run now s = thread_run now (schedtune_deboost_thread now s)"
    by (rule thread_run_unblocked)
  also have "schedtune_deboost_thread now s =
      s\<lparr>lock := False, trace := trace s @ [Schedtune_write now ''10''], deboost_time := 0,
        thread := At_sem_wait\<rparr>"
    using assms by (simp add: thread_defs)
  also have "thread_run now \<dots> =
      s\<lparr>lock := False, trace := trace s @ [Schedtune_write now ''10''], deboost_time := 0,
        thread := At_sem_wait\<rparr>"
    using assms by (simp add: thread_run_blocked thread_blocked_def)
  finally show ?thesis .
qed

lemma thread_run_sem_wait:
  assumes "thread s = At_sem_wait" "0 < signal_lock s"
  shows "thread_run now s = thread_run now (s\<lparr>signal_lock := signal_lock s - 1, thread := At_lock\<rparr>)"
proof -
  have "\<not> thread_blocked now s" using assms by (simp add: thread_blocked_def)
  then have "thread_run now s = thread_run now (schedtune_deboost_thread now s)"
    by (rule thread_run_unblocked)
  then show ?thesis using assms by (simp add: thread_defs)
qed

lemma thread_run_wakes:
  assumes "thread s = In_nanosleep wake" "wake \<le> now"
  shows "thread_run now s = thread_run now (s\<lparr>thread := At_lock\<rparr>)"
proof -
  have "\<not> thread_blocked now s" using assms by (simp add: thread_blocked_def)
  then have "thread_run now s = thread_run now (schedtune_deboost_thread now s)"
    by (rule thread_run_unblocked)
  then show ?thesis using assms by (simp add: thread_defs)
qed

lemma thread_run_still_asleep:
  assumes "thread s = In_nanosleep wake" "now < wake"
  shows "thread_run now s = s"
  using assms by (simp add: thread_run_blocked thread_blocked_def)

lemma armed_tick_early:
  assumes "armed d tr s" "now < d"
  shows "armed d tr (thread_run now s)"
proof (cases "thread s")
  case Not_started
  with assms show ?thesis by (simp add: armed_def)
next
  case At_sem_wait
  with assms have sem: "signal_lock s = 1" by (simp add: armed_def)
  let ?s1 = "s\<lparr>signal_lock := signal_lock s - 1, thread := At_lock\<rparr>"
  have "thread_run now s = thread_run now ?s1"
    using At_sem_wait sem by (simp add: thread_run_sem_wait)
  also have "\<dots> = ?s1\<lparr>lock := False, thread := In_nanosleep (deboost_time ?s1)\<rparr>"
    using assms by (intro thread_run_sleeps) (simp_all add: armed_def)
  finally show ?thesis using At_sem_wait sem assms by (simp add: armed_def)
next
  case At_lock
  then have "thread_run now s = s\<lparr>lock := False, thread := In_nanosleep (deboost_time s)\<rparr>"
    using assms by (intro thread_run_sleeps) (simp_all add: armed_def)
  then show ?thesis using At_lock assms by (simp add: armed_def)
next
  case (In_nanosleep wake)
  show ?thesis
  proof (cases "now < wake")
    case True
    with In_nanosleep assms show ?thesis by (simp add: thread_run_still_asleep)
  next
    case False
    let ?s1 = "s\<lparr>thread := At_lock\<rparr>"
    have "thread_run now s = thread_run now ?s1"
      using In_nanosleep False by (simp add: thread_run_wakes)
    also have "\<dots> = ?s1\<lparr>lock := False, thread := In_nanosleep (deboost_time ?s1)\<rparr>"
      using assms by (intro thread_run_sleeps) (simp_all add: armed_def)
    finally show ?thesis using In_nanosleep assms by (simp add: armed_def)
  qed
qed

lemma armed_step_early:
  assumes "armed d tr s" "now < d"
  shows "armed d tr (schedtune_deboost_thread now s)"
  using assms by (auto simp: armed_def thread_defs split: thread_pc.splits)

lemma armed_events_early:
  "armed d tr s \<Longrightarrow> \<forall>e\<in>set es. thread_event_before d e \<Longrightarrow> armed d tr (run es s)"
proof (induction es arbitrary: s)
  case Nil
  then show ?case by simp
next
  case (Cons e es)
  from Cons.prems have "armed d tr (step e s)"
    by (cases e) (simp_all add: armed_tick_early armed_step_early)
  with Cons show ?case by simp
qed

lemma armed_tick_due:
  assumes "armed d tr s" "d \<le> now"
  shows "trace (thread_run now s) = tr @ [Schedtune_write now ''10'']
       \<and> deboost_time (thread_run now s) = 0 \<and> signal_lock (thread_run now s) = 0
       \<and> thread (thread_run now s) = At_sem_wait"
proof (cases "thread s")
  case Not_started
  with assms show ?thesis by (simp add: armed_def)
next
  case At_sem_wait
  with assms have sem: "signal_lock s = 1" by (simp add: armed_def)
  let ?s1 = "s\<lparr>signal_lock := signal_lock s - 1, thread := At_lock\<rparr>"
  have "thread_run now s = thread_run now ?s1"
    using At_sem_wait sem by (simp add: thread_run_sem_wait)
  also have "\<dots> = ?s1\<lparr>lock := False, trace := trace ?s1 @ [Schedtune_write now ''10''],
                       deboost_time := 0, thread := At_sem_wait\<rparr>"
    using assms sem by (intro thread_run_deboosts) (simp_all add: armed_def)
  finally show ?thesis using At_sem_wait sem assms by (simp add: armed_def)
next
  case At_lock
  then have "thread_run now s = s\<lparr>lock := False, trace := trace s @ [Schedtune_write now ''10''],
                       deboost_time := 0, thread := At_sem_wait\<rparr>"
    using assms by (intro thread_run_deboosts) (simp_all add: armed_def)
  then show ?thesis using At_lock assms by (simp add: armed_def)
next
  case (In_nanosleep wake)
  with assms have w: "wake \<le> now" and sem: "signal_lock s = 0" by (simp_all add: armed_def)
  let ?s1 = "s\<lparr>thread := At_lock\<rparr>"
  have "thread_run now s = thread_run now ?s1"
    using In_nanosleep w by (simp add: thread_run_wakes)
  also have "\<dots> = ?s1\<lparr>lock := False, trace := trace ?s1 @ [Schedtune_write now ''10''],
                       deboost_time := 0, thread := At_sem_wait\<rparr>"
    using assms sem by (intro thread_run_deboosts) (simp_all add: armed_def)
  finally show ?thesis using In_nanosleep assms by (simp add: armed_def)
qed

lemmas boost_defs = power_hint_def schedtune_boost_def schedtune_sysfs_boost_def
  pthread_mutex_lock_def pthread_mutex_unlock_def emit_def Let_def
  SCHEDTUNE_BOOST_INTERACTIVE_def SCHEDTUNE_BOOST_TIME_NS_def

lemma boost_from_idle:
  assumes "\<not> interactiveActive s" "intelSchedBoostActive s"
    and "deboost_time s = 0" "signal_lock s = 0" "thread s = At_sem_wait"
  shows "armed (gettime_ns clk + 1000000000) (trace s @ [Schedtune_write (gettime_ns clk) ''40''])
           (power_hint POWER_HINT_INTERACTION clk data s)"
  using assms by (simp add: armed_def boost_defs)

lemma boost_while_armed:
  assumes "armed d tr s" "d \<noteq> 0" "d \<le> gettime_ns clk + 1000000000"
  shows "armed (gettime_ns clk + 1000000000) tr (power_hint POWER_HINT_INTERACTION clk data s)"
  using assms by (auto simp add: armed_def boost_defs split: thread_pc.splits)

lemmas clock_defs = gettime_ns_def NSEC_PER_SEC_def

lemma idle_engine_eq:
  "idle_engine = HAL_MODULE_INFO_SYM\<lparr>intelSchedBoostActive := True, schedtune_boost_fd := 3,
      thread := At_sem_wait, trace := [Schedtune_write 5000000 ''10'']\<rparr>"
  by (simp add: idle_engine_def sched_only_device_def init_defs thread_run.simps thread_defs
                clock_defs at_ms_def)

text \<open>
  Claim C10. When \<open>open\<close> succeeds, \<open>schedtune_power_init\<close> returns 0 (and \<open>power_init\<close>
  sets \<open>intelSchedBoostActive\<close>) with the semaphore at 1, no deadline, and the thread
  created. Scheduled with the clock at any value from 0 on and
  before any call of \<open>schedtune_boost\<close>, the thread is not blocked: it passes \<open>sem_wait\<close>,
  finds \<open>deboost_time = 0\<close>, writes the normal level "10" once and blocks in \<open>sem_wait\<close>
  with the semaphore at 0; scheduling it again, at any clock value, changes nothing.
\<close>

theorem first_pass_writes_normal_level:
  fixes s :: hal and open_ret :: int and clk :: timespec
  assumes "0 \<le> open_ret" "0 \<le> gettime_ns clk"
  defines "s1 \<equiv> snd (schedtune_power_init open_ret s)"
  shows "fst (schedtune_power_init open_ret s) = 0
       \<and> intelSchedBoostActive (power_init pulse_open pulse_read pstate_open pstate_read open_ret s)
       \<and> signal_lock s1 = 1 \<and> deboost_time s1 = 0 \<and> thread s1 = At_sem_wait
       \<and> trace s1 = trace s
       \<and> \<not> thread_blocked (gettime_ns clk) s1
       \<and> trace (step (Tick clk) s1) = trace s @ [Schedtune_write (gettime_ns clk) ''10'']
       \<and> deboost_time (step (Tick clk) s1) = 0
       \<and> signal_lock (step (Tick clk) s1) = 0
       \<and> thread (step (Tick clk) s1) = At_sem_wait
       \<and> (\<forall>clk'. step (Tick clk') (step (Tick clk) s1) = step (Tick clk) s1)"
proof -
  let ?now = "gettime_ns clk"
  have s1: "s1 = s\<lparr>deboost_time := 0, signal_lock := 1, schedtune_boost_fd := open_ret,
                    thread := At_sem_wait\<rparr>"
    using assms(1) by (simp add: s1_def schedtune_power_init_def Let_def)
  let ?s2 = "s1\<lparr>signal_lock := signal_lock s1 - 1, thread := At_lock\<rparr>"
  let ?s3 = "?s2\<lparr>lock := False, trace := trace ?s2 @ [Schedtune_write ?now ''10''],
                 deboost_time := 0, thread := At_sem_wait\<rparr>"
  have "thread_run ?now s1 = thread_run ?now ?s2"
    by (rule thread_run_sem_wait) (simp_all add: s1)
  also have "\<dots> = ?s3"
    using assms(2) by (intro thread_run_deboosts) (simp_all add: s1)
  finally have run: "step (Tick clk) s1 = ?s3" by simp
  have blocked: "\<forall>clk'. step (Tick clk') ?s3 = ?s3"
    by (simp add: thread_run_blocked thread_blocked_def s1)
  have r: "fst (schedtune_power_init open_ret s) = 0"
    using assms(1) by (simp add: schedtune_power_init_def Let_def)
  have nb: "\<not> thread_blocked (gettime_ns clk) s1"
    by (simp add: thread_blocked_def s1)
  have fl: "intelSchedBoostActive
              (power_init pulse_open pulse_read pstate_open pstate_read open_ret s)"
    using assms(1) by (simp add: power_init_def schedtune_power_init_def Let_def)
  show ?thesis unfolding run using blocked r nb fl by (simp add: s1)
qed

theorem first_pass_writes_normal_level_witness:
  "(0::int) \<le> 3 \<and> 0 \<le> gettime_ns (at_ms 5)
   \<and> fst (schedtune_power_init 3 HAL_MODULE_INFO_SYM) = 0
   \<and> trace (step (Tick (at_ms 5)) (snd (schedtune_power_init 3 HAL_MODULE_INFO_SYM)))
       = [Schedtune_write 5000000 ''10'']
   \<and> thread (step (Tick (at_ms 5)) (snd (schedtune_power_init 3 HAL_MODULE_INFO_SYM)))
       = At_sem_wait
   \<and> signal_lock (step (Tick (at_ms 5)) (snd (schedtune_power_init 3 HAL_MODULE_INFO_SYM))) = 0"
proof -
  have h1: "(0::int) \<le> 3" by simp
  have h2: "0 \<le> gettime_ns (at_ms 5)" by (simp add: clock_defs at_ms_def)
  have t: "trace HAL_MODULE_INFO_SYM = []" by (simp add: HAL_MODULE_INFO_SYM_def)
  have g: "gettime_ns (at_ms 5) = 5000000" by (simp add: clock_defs at_ms_def)
  from first_pass_writes_normal_level [OF h1 h2, of HAL_MODULE_INFO_SYM] h2 t g show ?thesis by simp
qed

text \<open>
  Claim C1 as stated fails when the first hint arrives before the de-boost thread has made its
  first pass. In the state \<open>power_init\<close> leaves, \<open>deboost_time\<close> is 0 and the semaphore
  still holds the unit \<open>sem_init\<close> gave it. The first hint, at 10000 ms, writes "40" and posts
  a second unit. The thread takes one unit, sleeps to 11000 ms, finds the deadline moved to
  11500 ms by the hint at 10500 ms and sleeps again; at 11500 ms it writes "10", clears
  \<open>deboost_time\<close>, takes the remaining unit, finds \<open>deboost_time = 0\<close> and writes "10" a
  second time.
\<close>

theorem early_request_gives_two_normal_writes:
  "reachable sched_only_device
   \<and> \<not> interactiveActive sched_only_device \<and> intelSchedBoostActive sched_only_device
   \<and> deboost_time sched_only_device = 0
   \<and> trace (run [Hint POWER_HINT_INTERACTION (at_ms 10000) 0,
                   Tick (at_ms 10000),
                   Hint POWER_HINT_INTERACTION (at_ms 10500) 0,
                   Tick (at_ms 11000),
                   Tick (at_ms 11500)] sched_only_device)
       = [Schedtune_write 10000000000 ''40'', Schedtune_write 11500000000 ''10'',
          Schedtune_write 11500000000 ''10'']"
proof -
  have "reachable sched_only_device"
    by (simp add: sched_only_device_def reachable.init)
  moreover have "\<not> interactiveActive sched_only_device \<and> intelSchedBoostActive sched_only_device
      \<and> deboost_time sched_only_device = 0"
    by (simp add: sched_only_device_def init_defs Let_def)
  moreover have "trace (run [Hint POWER_HINT_INTERACTION (at_ms 10000) 0,
                   Tick (at_ms 10000),
                   Hint POWER_HINT_INTERACTION (at_ms 10500) 0,
                   Tick (at_ms 11000),
                   Tick (at_ms 11500)] sched_only_device)
       = [Schedtune_write 10000000000 ''40'', Schedtune_write 11500000000 ''10'',
          Schedtune_write 11500000000 ''10'']"
    by (simp add: sched_only_device_def init_defs boost_defs thread_run.simps thread_defs
                  clock_defs at_ms_def)
  ultimately show ?thesis by simp
qed

text \<open>
  Claim C1, as the code has it. Only the scheduler boost is available and the engine is idle:
  no boost pending, and the de-boost thread, its first pass made, waiting in \<open>sem_wait\<close> with
  the semaphore at 0. An interaction hint arrives when the clock reads \<open>t\<close>, a second one
  500 ms later; between and after them the de-boost thread is scheduled any number of times,
  in single steps or until it blocks, at any clock values before the deadline then in force
  (\<open>t\<close> + 1000 ms after the first hint, \<open>t\<close> + 1500 ms after the second; a run at
  \<open>t\<close> + 1000 ms is among them). Up to that point the only write is the interactive level
  "40", made by the first hint with the clock at \<open>t\<close>, and the deadline is \<open>t\<close> + 1500 ms.
  When the thread next runs, at a clock value of \<open>t\<close> + 1500 ms or later, it writes the
  normal level "10" once, with that clock value, and clears the deadline: with a sleep that
  ends on time, at \<open>t\<close> + 1500 ms.
\<close>

theorem debounced_boost_two_requests:
  fixes s :: hal and c0 c1 c2 :: timespec and es1 es2 :: "event list" and d0 d1 :: nat
  assumes "\<not> interactiveActive s" "intelSchedBoostActive s"
      and "deboost_time s = 0" "signal_lock s = 0" "thread s = At_sem_wait"
      and "0 \<le> gettime_ns c0"
      and "gettime_ns c1 = gettime_ns c0 + 500000000"
      and "gettime_ns c0 + 1500000000 \<le> gettime_ns c2"
      and "\<forall>e\<in>set es1. thread_event_before (gettime_ns c0 + 1000000000) e"
      and "\<forall>e\<in>set es2. thread_event_before (gettime_ns c0 + 1500000000) e"
  defines "before \<equiv> Hint POWER_HINT_INTERACTION c0 d0 # es1 @
                         Hint POWER_HINT_INTERACTION c1 d1 # es2"
  shows "trace (run before s) = trace s @ [Schedtune_write (gettime_ns c0) ''40'']
       \<and> deboost_time (run before s) = gettime_ns c0 + 1500000000
       \<and> trace (run (before @ [Tick c2]) s) =
             trace s @ [Schedtune_write (gettime_ns c0) ''40'',
                        Schedtune_write (gettime_ns c2) ''10'']
       \<and> deboost_time (run (before @ [Tick c2]) s) = 0"
proof -
  let ?tr = "trace s @ [Schedtune_write (gettime_ns c0) ''40'']"
  let ?sa = "power_hint POWER_HINT_INTERACTION c0 d0 s"
  let ?sb = "run es1 ?sa"
  let ?sc = "power_hint POWER_HINT_INTERACTION c1 d1 ?sb"
  let ?sd = "run es2 ?sc"
  have a: "armed (gettime_ns c0 + 1000000000) ?tr ?sa"
    using assms(1-5) by (rule boost_from_idle)
  have b: "armed (gettime_ns c0 + 1000000000) ?tr ?sb"
    using a assms(9) by (rule armed_events_early)
  have nz: "gettime_ns c0 + 1000000000 \<noteq> 0"
    using assms(6) by linarith
  have le: "gettime_ns c0 + 1000000000 \<le> gettime_ns c1 + 1000000000"
    using assms(7) by linarith
  have "armed (gettime_ns c1 + 1000000000) ?tr ?sc"
    using b nz le by (rule boost_while_armed)
  moreover have "gettime_ns c1 + 1000000000 = gettime_ns c0 + 1500000000"
    using assms(7) by linarith
  ultimately have c: "armed (gettime_ns c0 + 1500000000) ?tr ?sc"
    by (simp only:)
  have d: "armed (gettime_ns c0 + 1500000000) ?tr ?sd"
    using c assms(10) by (rule armed_events_early)
  have rb: "run before s = ?sd"
    by (simp add: before_def run_append)
  note fin = armed_tick_due [OF d assms(8)]
  from d have "trace ?sd = ?tr" "deboost_time ?sd = gettime_ns c0 + 1500000000"
    by (simp_all add: armed_def)
  with fin rb show ?thesis by (simp add: run_append)
qed

theorem debounced_boost_two_requests_witness:
  "\<not> interactiveActive idle_engine \<and> intelSchedBoostActive idle_engine
   \<and> deboost_time idle_engine = 0 \<and> signal_lock idle_engine = 0
   \<and> thread idle_engine = At_sem_wait
   \<and> trace (run [Hint POWER_HINT_INTERACTION (at_ms 10000) 0,
                   Thread_step (at_ms 10000), Tick (at_ms 10499),
                   Hint POWER_HINT_INTERACTION (at_ms 10500) 0,
                   Tick (at_ms 10500), Tick (at_ms 11000), Thread_step (at_ms 11499),
                   Tick (at_ms 11500)] idle_engine)
       = [Schedtune_write 5000000 ''10'', Schedtune_write 10000000000 ''40'',
          Schedtune_write 11500000000 ''10'']"
proof -
  have h1: "\<not> interactiveActive idle_engine" by (simp add: idle_engine_eq HAL_MODULE_INFO_SYM_def)
  have h2: "intelSchedBoostActive idle_engine" by (simp add: idle_engine_eq HAL_MODULE_INFO_SYM_def)
  have h3: "deboost_time idle_engine = 0" by (simp add: idle_engine_eq HAL_MODULE_INFO_SYM_def)
  have h4: "signal_lock idle_engine = 0" by (simp add: idle_engine_eq HAL_MODULE_INFO_SYM_def)
  have h5: "thread idle_engine = At_sem_wait" by (simp add: idle_engine_eq HAL_MODULE_INFO_SYM_def)
  have tr: "trace idle_engine = [Schedtune_write 5000000 ''10'']"
    by (simp add: idle_engine_eq HAL_MODULE_INFO_SYM_def)
  have h6: "0 \<le> gettime_ns (at_ms 10000)" by (simp add: clock_defs at_ms_def)
  have g0: "gettime_ns (at_ms 10000) = 10000000000" by (simp add: clock_defs at_ms_def)
  have h7: "gettime_ns (at_ms 10500) = gettime_ns (at_ms 10000) + 500000000"
    by (simp add: clock_defs at_ms_def)
  have h8: "gettime_ns (at_ms 10000) + 1500000000 \<le> gettime_ns (at_ms 11500)"
    by (simp add: clock_defs at_ms_def)
  have g2: "gettime_ns (at_ms 11500) = 11500000000" by (simp add: clock_defs at_ms_def)
  have h9: "\<forall>e\<in>set [Thread_step (at_ms 10000), Tick (at_ms 10499)].
              thread_event_before (gettime_ns (at_ms 10000) + 1000000000) e"
    by (simp add: clock_defs at_ms_def)
  have h10: "\<forall>e\<in>set [Tick (at_ms 10500), Tick (at_ms 11000), Thread_step (at_ms 11499)].
              thread_event_before (gettime_ns (at_ms 10000) + 1500000000) e"
    by (simp add: clock_defs at_ms_def)
  from debounced_boost_two_requests [OF h1 h2 h3 h4 h5 h6 h7 h8 h9 h10, of 0 0] h1 h2 h3 h4 h5 tr g0 g2
  show ?thesis by simp
qed

end
